theory Spec2Isabelle
  imports Main
begin

section \<open>Python values and text\<close>

text \<open>
  A Python \<^verbatim>\<open>str\<close> is modelled by \<^typ>\<open>string\<close>, read as the UTF-8 encoding of
  the text: every operation of \<^verbatim>\<open>async_process\<close> on text (concatenation, the
  replacement of the ASCII pattern \<^verbatim>\<open>,}\<close>, JSON decoding) acts the same way on the
  code points and on their UTF-8 bytes.

  The values \<^verbatim>\<open>json.loads\<close> builds are \<^verbatim>\<open>None\<close>, \<^verbatim>\<open>bool\<close>, \<^verbatim>\<open>int\<close>, \<^verbatim>\<open>float\<close>,
  \<^verbatim>\<open>str\<close>, \<^verbatim>\<open>list\<close> and \<^verbatim>\<open>dict\<close>. A float is kept as the numeral text it was read
  from (\<^verbatim>\<open>NaN\<close>, \<^verbatim>\<open>Infinity\<close> and \<^verbatim>\<open>-Infinity\<close> included): the program never
  computes with it. A dict is an association list with distinct keys in insertion order.
\<close>

datatype py_value =
    PyNone
  | PyBool bool
  | PyInt int
  | PyFloat string
  | PyStr string
  | PyList "py_value list"
  | PyDict "(string \<times> py_value) list"

text \<open>
  The exceptions the turn can meet. \<^verbatim>\<open>TemplateError\<close> comes from the template engine,
  \<^verbatim>\<open>OpenAIError\<close> from the provider's client, \<^verbatim>\<open>JSONDecodeError\<close> from
  \<^verbatim>\<open>json.loads\<close>, \<^verbatim>\<open>KeyError\<close> (with the missing key) and \<^verbatim>\<open>TypeError\<close> from
  subscripting, \<^verbatim>\<open>AttributeError\<close> from a method the value does not have, and
  \<^verbatim>\<open>OtherException\<close> stands for any other subclass of
  \<^verbatim>\<open>Exception\<close> a collaborator raises. The text in a collaborator's exception only tells
  two of them apart; what \<^verbatim>\<open>str(err)\<close> prints is given by the runtime (see \<open>env\<close>).
\<close>

datatype py_exception =
    TemplateError string
  | OpenAIError string
  | JSONDecodeError
  | KeyError string
  | TypeError
  | AttributeError
  | OtherException string

subsection \<open>\<^verbatim>\<open>str.replace\<close>\<close>

text \<open>
  \<^verbatim>\<open>s.replace(old, new)\<close>: every non-overlapping occurrence of \<^verbatim>\<open>old\<close>, found from
  left to right, is replaced; the search goes on after the occurrence. An empty
  \<^verbatim>\<open>old\<close> matches before every character and at the end.
\<close>

function str_replace :: "string \<Rightarrow> string \<Rightarrow> string \<Rightarrow> string" where
  "str_replace old new [] = (if old = [] then new else [])"
| "str_replace old new (c # cs) =
     (if old = [] then new @ c # str_replace old new cs
      else if take (length old) (c # cs) = old
        then new @ str_replace old new (drop (length old) (c # cs))
      else c # str_replace old new cs)"
  by pat_completeness auto
termination
  by (relation "measure (\<lambda>(old, new, s). length s)") (auto simp: neq_Nil_conv)

subsection \<open>Dict operations\<close>

text \<open>\<^verbatim>\<open>d[k] = v\<close>: an existing key keeps its place, a new key goes last.\<close>

fun dict_set :: "(string \<times> py_value) list \<Rightarrow> string \<Rightarrow> py_value \<Rightarrow> (string \<times> py_value) list" where
  "dict_set [] k v = [(k, v)]"
| "dict_set (p # ps) k v = (if fst p = k then (k, v) # ps else p # dict_set ps k v)"

text \<open>
  \<^verbatim>\<open>obj[k]\<close> for a string \<^verbatim>\<open>k\<close>: a dict without the key raises \<^verbatim>\<open>KeyError\<close>; a
  list, a string, a number, a bool and \<^verbatim>\<open>None\<close> raise \<^verbatim>\<open>TypeError\<close>.
\<close>

definition getitem :: "py_value \<Rightarrow> string \<Rightarrow> py_exception + py_value" where
  "getitem obj k =
     (case obj of
        PyDict ps \<Rightarrow> (case map_of ps k of None \<Rightarrow> Inl (KeyError k) | Some v \<Rightarrow> Inr v)
      | _ \<Rightarrow> Inl TypeError)"

text \<open>\<^verbatim>\<open>del obj[k]\<close>, with the same failures.\<close>

definition delitem :: "py_value \<Rightarrow> string \<Rightarrow> py_exception + py_value" where
  "delitem obj k =
     (case obj of
        PyDict ps \<Rightarrow>
          (case map_of ps k of
             None \<Rightarrow> Inl (KeyError k)
           | Some v \<Rightarrow> Inr (PyDict (filter (\<lambda>p. fst p \<noteq> k) ps)))
      | _ \<Rightarrow> Inl TypeError)"

text \<open>\<^verbatim>\<open>k in obj.keys()\<close>: only a dict has the method.\<close>

definition has_key :: "py_value \<Rightarrow> string \<Rightarrow> py_exception + bool" where
  "has_key obj k =
     (case obj of PyDict ps \<Rightarrow> Inr (k \<in> set (map fst ps)) | _ \<Rightarrow> Inl AttributeError)"

text \<open>\<^verbatim>\<open>type(v) == dict\<close>.\<close>

definition is_dict :: "py_value \<Rightarrow> bool" where
  "is_dict v = (case v of PyDict ps \<Rightarrow> True | _ \<Rightarrow> False)"

section \<open>\<^verbatim>\<open>json.loads\<close>\<close>

text \<open>
  The decoder of the standard library, for a \<^verbatim>\<open>str\<close> argument and default options
  (strict strings, no hooks): leading and trailing whitespace is skipped, one value is
  read, anything after it is an error. Besides the JSON grammar it reads the
  constants \<^verbatim>\<open>NaN\<close>, \<^verbatim>\<open>Infinity\<close> and \<^verbatim>\<open>-Infinity\<close>. Every failure is a
  \<^verbatim>\<open>JSONDecodeError\<close>; its message and position are not modelled. The limits of the
  interpreter (recursion depth, the digit limit of \<^verbatim>\<open>int\<close>) are not modelled either.

  The model reads the text in two passes: the tokens first, then the values, with an
  explicit stack of the containers that are open.
\<close>

definition is_ws :: "char \<Rightarrow> bool" where
  "is_ws c = (c = CHR '' '' \<or> c = CHR 0x09 \<or> c = CHR 0x0A \<or> c = CHR 0x0D)"

definition is_digit :: "char \<Rightarrow> bool" where
  "is_digit c = (c \<in> set ''0123456789'')"

fun index_of :: "char \<Rightarrow> string \<Rightarrow> nat option" where
  "index_of c [] = None"
| "index_of c (d # ds) = (if c = d then Some 0 else map_option Suc (index_of c ds))"

definition hex_digit :: "char \<Rightarrow> nat option" where
  "hex_digit c =
     (case index_of c ''0123456789abcdef'' of
        Some n \<Rightarrow> Some n
      | None \<Rightarrow> map_option (\<lambda>n. 10 + n) (index_of c ''ABCDEF''))"

text \<open>The four hex digits of a \<^verbatim>\<open>\uXXXX\<close> escape, as a number.\<close>

fun hex_value :: "nat \<Rightarrow> string \<Rightarrow> nat option" where
  "hex_value acc [] = Some acc"
| "hex_value acc (c # cs) =
     (case hex_digit c of None \<Rightarrow> None | Some d \<Rightarrow> hex_value (16 * acc + d) cs)"

definition decode_uXXXX :: "string \<Rightarrow> nat option" where
  "decode_uXXXX s = (if length (take 4 s) = 4 then hex_value 0 (take 4 s) else None)"

text \<open>
  The UTF-8 bytes of a code point (a lone surrogate, which a Python \<^verbatim>\<open>str\<close> can hold,
  gets the three bytes the same scheme gives it).
\<close>

definition utf8 :: "nat \<Rightarrow> string" where
  "utf8 n =
     (if n < 0x80 then [char_of n]
      else if n < 0x800 then [char_of (0xC0 + n div 64), char_of (0x80 + n mod 64)]
      else if n < 0x10000 then
        [char_of (0xE0 + n div 4096), char_of (0x80 + n div 64 mod 64),
         char_of (0x80 + n mod 64)]
      else
        [char_of (0xF0 + n div 262144), char_of (0x80 + n div 4096 mod 64),
         char_of (0x80 + n div 64 mod 64), char_of (0x80 + n mod 64)])"

text \<open>The character after a backslash, other than \<^verbatim>\<open>u\<close>.\<close>

definition backslash :: "char \<Rightarrow> char option" where
  "backslash e =
     (if e = CHR 0x22 then Some (CHR 0x22)
      else if e = CHR 0x5C then Some (CHR 0x5C)
      else if e = CHR ''/'' then Some (CHR ''/'')
      else if e = CHR ''b'' then Some (CHR 0x08)
      else if e = CHR ''f'' then Some (CHR 0x0C)
      else if e = CHR ''n'' then Some (CHR 0x0A)
      else if e = CHR ''r'' then Some (CHR 0x0D)
      else if e = CHR ''t'' then Some (CHR 0x09)
      else None)"

definition prepend :: "string \<Rightarrow> (string \<times> string) option \<Rightarrow> (string \<times> string) option" where
  "prepend s r = (case r of None \<Rightarrow> None | Some (t, rest) \<Rightarrow> Some (s @ t, rest))"

text \<open>
  \<^verbatim>\<open>scanstring\<close>, called after the opening quote: the decoded string and the text
  after the closing quote. It fails on the end of the text, on a control character
  (below 0x20) and on a wrong escape. A high surrogate followed by the escape of a low
  one is one code point; any other surrogate stands alone.
\<close>

fun scanstring :: "string \<Rightarrow> (string \<times> string) option" where
  "scanstring [] = None"
| "scanstring (c # cs) =
     (if c = CHR 0x22 then Some ([], cs)
      else if c = CHR 0x5C then
        (case cs of
           [] \<Rightarrow> None
         | e # es \<Rightarrow>
             if e = CHR ''u'' then
               (case decode_uXXXX es of
                  None \<Rightarrow> None
                | Some n \<Rightarrow>
                    if 0xD800 \<le> n \<and> n \<le> 0xDBFF \<and> take 2 (drop 4 es) = [CHR 0x5C, CHR ''u''] then
                      (case decode_uXXXX (drop 6 es) of
                         None \<Rightarrow> None
                       | Some m \<Rightarrow>
                           if 0xDC00 \<le> m \<and> m \<le> 0xDFFF then
                             prepend (utf8 (0x10000 + (n - 0xD800) * 1024 + (m - 0xDC00)))
                               (scanstring (drop 10 es))
                           else prepend (utf8 n) (scanstring (drop 4 es)))
                    else prepend (utf8 n) (scanstring (drop 4 es)))
             else
               (case backslash e of
                  None \<Rightarrow> None
                | Some ch \<Rightarrow> prepend [ch] (scanstring es)))
      else if (of_char c :: nat) < 0x20 then None
      else prepend [c] (scanstring cs))"

text \<open>
  The number at the start of the text, as the decoder's regular expression
  \<^verbatim>\<open>(-?(?:0|[1-9][0-9]*))(\.[0-9]+)?([eE][-+]?[0-9]+)?\<close> matches it: the integer part,
  then a fraction and an exponent where they are complete. With neither, the value is
  an \<^verbatim>\<open>int\<close>.
\<close>

definition nat_of_digits :: "string \<Rightarrow> nat" where
  "nat_of_digits ds = foldl (\<lambda>n c. 10 * n + (case index_of c ''0123456789'' of Some d \<Rightarrow> d | None \<Rightarrow> 0)) 0 ds"

definition match_sign :: "string \<Rightarrow> string \<Rightarrow> string \<times> string" where
  "match_sign signs s =
     (case s of [] \<Rightarrow> ([], []) | c # cs \<Rightarrow> if c \<in> set signs then ([c], cs) else ([], s))"

definition match_integer :: "string \<Rightarrow> (string \<times> string) option" where
  "match_integer s =
     (case s of
        [] \<Rightarrow> None
      | d # ds \<Rightarrow>
          if d = CHR ''0'' then Some ([d], ds)
          else if is_digit d then Some (d # takeWhile is_digit ds, dropWhile is_digit ds)
          else None)"

definition match_frac :: "string \<Rightarrow> string \<times> string" where
  "match_frac s =
     (case s of
        [] \<Rightarrow> ([], [])
      | c # cs \<Rightarrow>
          if c = CHR ''.'' \<and> takeWhile is_digit cs \<noteq> []
          then (c # takeWhile is_digit cs, dropWhile is_digit cs)
          else ([], s))"

definition match_exp :: "string \<Rightarrow> string \<times> string" where
  "match_exp s =
     (case s of
        [] \<Rightarrow> ([], [])
      | c # cs \<Rightarrow>
          if c = CHR ''e'' \<or> c = CHR ''E'' then
            (let (sg, r) = match_sign ''-+'' cs in
             if takeWhile is_digit r \<noteq> []
             then (c # sg @ takeWhile is_digit r, dropWhile is_digit r)
             else ([], s))
          else ([], s))"

definition match_number :: "string \<Rightarrow> (py_value \<times> string) option" where
  "match_number s =
     (let (sg, s1) = match_sign ''-'' s in
      case match_integer s1 of
        None \<Rightarrow> None
      | Some (ds, s2) \<Rightarrow>
          (let (frac, s3) = match_frac s2; (ex, s4) = match_exp s3 in
           if frac = [] \<and> ex = [] then
             Some (PyInt (if sg = [] then int (nat_of_digits ds) else - int (nat_of_digits ds)), s4)
           else Some (PyFloat (sg @ ds @ frac @ ex), s4)))"

datatype token =
    LBrace | RBrace | LBracket | RBracket | Colon | Comma
  | TString string
  | TScalar py_value

definition emit :: "token \<Rightarrow> token list option \<Rightarrow> token list option" where
  "emit t r = map_option (Cons t) r"

lemma prepend_Some:
  "prepend s r = Some (t, rest) \<Longrightarrow> \<exists>t'. r = Some (t', rest)"
  by (auto simp: prepend_def split: option.splits)

lemma scanstring_shorter:
  "scanstring cs = Some (s, rest) \<Longrightarrow> length rest < length cs"
proof (induction cs arbitrary: s rest rule: scanstring.induct)
  case 1
  then show ?case by simp
next
  case (2 c cs)
  show ?case
  proof (cases "c = CHR 0x22")
    case True
    with "2.prems" show ?thesis by simp
  next
    case quote: False
    show ?thesis
    proof (cases "c = CHR 0x5C")
      case False
      with quote "2.prems" obtain t where "scanstring cs = Some (t, rest)"
        by (auto split: if_splits dest: prepend_Some)
      with "2.IH"(5) [OF quote False] "2.prems" quote False show ?thesis
        by (fastforce split: if_splits)
    next
      case True
      with quote "2.prems" obtain e es where cs: "cs = e # es"
        by (cases cs) auto
      show ?thesis
      proof (cases "e = CHR ''u''")
        case False
        with quote True cs "2.prems" obtain ch t
          where b: "backslash e = Some ch" and r: "scanstring es = Some (t, rest)"
          by (auto split: option.splits dest: prepend_Some)
        from "2.IH"(4) [OF quote True cs False b r] cs show ?thesis by simp
      next
        case u: True
        with quote True cs "2.prems" obtain n where n: "decode_uXXXX es = Some n"
          by (auto split: option.splits)
        let ?pair = "0xD800 \<le> n \<and> n \<le> 0xDBFF \<and> take 2 (drop 4 es) = [CHR 0x5C, CHR ''u'']"
        show ?thesis
        proof (cases ?pair)
          case False
          with quote True cs u n "2.prems" obtain t where r: "scanstring (drop 4 es) = Some (t, rest)"
            by (auto dest: prepend_Some)
          from "2.IH"(3) [OF quote True cs u n False r] cs show ?thesis by simp
        next
          case pair: True
          with quote True cs u n "2.prems" obtain m where m: "decode_uXXXX (drop 6 es) = Some m"
            by (auto split: option.splits)
          show ?thesis
          proof (cases "0xDC00 \<le> m \<and> m \<le> 0xDFFF")
            case True
            with quote \<open>c = CHR 0x5C\<close> cs u n pair m "2.prems"
            obtain t where r: "scanstring (drop 10 es) = Some (t, rest)"
              by (auto dest: prepend_Some)
            from "2.IH"(1) [OF quote \<open>c = CHR 0x5C\<close> cs u n pair m True r] cs show ?thesis by simp
          next
            case False
            with quote \<open>c = CHR 0x5C\<close> cs u n pair m "2.prems"
            obtain t where r: "scanstring (drop 4 es) = Some (t, rest)"
              by (auto dest: prepend_Some)
            from "2.IH"(2) [OF quote \<open>c = CHR 0x5C\<close> cs u n pair m False r] cs show ?thesis by simp
          qed
        qed
      qed
    qed
  qed
qed


lemma match_sign_shorter: "match_sign signs s = (sg, r) \<Longrightarrow> length r \<le> length s"
  by (auto simp: match_sign_def split: list.splits if_splits)

lemma match_integer_shorter: "match_integer s = Some (ds, r) \<Longrightarrow> length r < length s"
  by (auto simp: match_integer_def less_Suc_eq_le length_dropWhile_le split: list.splits if_splits)

lemma match_frac_shorter: "match_frac s = (f, r) \<Longrightarrow> length r \<le> length s"
  by (auto simp: match_frac_def le_Suc_eq length_dropWhile_le split: list.splits if_splits)

lemma match_exp_shorter: "match_exp s = (ex, r) \<Longrightarrow> length r \<le> length s"
proof (cases s)
  case Nil
  assume "match_exp s = (ex, r)"
  with Nil show ?thesis by (simp add: match_exp_def)
next
  case (Cons c cs)
  assume m: "match_exp s = (ex, r)"
  obtain sg t where sg: "match_sign ''-+'' cs = (sg, t)"
    by (cases "match_sign ''-+'' cs")
  have "length (dropWhile is_digit t) \<le> length cs"
    using match_sign_shorter [OF sg] length_dropWhile_le [of is_digit t] by simp
  with m Cons sg show ?thesis
    by (auto simp: match_exp_def split: if_splits)
qed

lemma match_number_shorter: "match_number s = Some (v, r) \<Longrightarrow> length r < length s"
proof -
  assume m: "match_number s = Some (v, r)"
  obtain sg s1 where sg: "match_sign ''-'' s = (sg, s1)"
    by (cases "match_sign ''-'' s")
  with m obtain ds s2 where i: "match_integer s1 = Some (ds, s2)"
    by (auto simp: match_number_def split: option.splits)
  obtain frac s3 where f: "match_frac s2 = (frac, s3)"
    by (cases "match_frac s2")
  obtain ex s4 where e: "match_exp s3 = (ex, s4)"
    by (cases "match_exp s3")
  from m sg i f e have "r = s4"
    by (auto simp: match_number_def split: if_splits)
  with match_sign_shorter [OF sg] match_integer_shorter [OF i] match_frac_shorter [OF f]
    match_exp_shorter [OF e]
  show ?thesis by simp
qed

text \<open>
  The tokens of a text, or \<open>None\<close> where no token starts. A value is tried in the
  decoder's order: string, object, array, \<^verbatim>\<open>null\<close>, \<^verbatim>\<open>true\<close>, \<^verbatim>\<open>false\<close>, number,
  \<^verbatim>\<open>NaN\<close>, \<^verbatim>\<open>Infinity\<close>, \<^verbatim>\<open>-Infinity\<close>.
\<close>

function tokenize :: "string \<Rightarrow> token list option" where
  "tokenize [] = Some []"
| "tokenize (c # cs) =
     (if is_ws c then tokenize cs
      else if c = CHR ''}'' then emit RBrace (tokenize cs)
      else if c = CHR '']'' then emit RBracket (tokenize cs)
      else if c = CHR '':'' then emit Colon (tokenize cs)
      else if c = CHR '','' then emit Comma (tokenize cs)
      else if c = CHR 0x22 then
        (case scanstring cs of
           None \<Rightarrow> None
         | Some (s, rest) \<Rightarrow> emit (TString s) (tokenize rest))
      else if c = CHR ''{'' then emit LBrace (tokenize cs)
      else if c = CHR ''['' then emit LBracket (tokenize cs)
      else if take 4 (c # cs) = ''null'' then emit (TScalar PyNone) (tokenize (drop 3 cs))
      else if take 4 (c # cs) = ''true'' then emit (TScalar (PyBool True)) (tokenize (drop 3 cs))
      else if take 5 (c # cs) = ''false'' then emit (TScalar (PyBool False)) (tokenize (drop 4 cs))
      else
        (case match_number (c # cs) of
           Some (v, rest) \<Rightarrow> emit (TScalar v) (tokenize rest)
         | None \<Rightarrow>
             if take 3 (c # cs) = ''NaN'' then emit (TScalar (PyFloat ''NaN'')) (tokenize (drop 2 cs))
             else if take 8 (c # cs) = ''Infinity''
               then emit (TScalar (PyFloat ''Infinity'')) (tokenize (drop 7 cs))
             else if take 9 (c # cs) = ''-Infinity''
               then emit (TScalar (PyFloat ''-Infinity'')) (tokenize (drop 8 cs))
             else None))"
  by pat_completeness auto
termination
proof (relation "measure length")
  show "wf (measure length)" by simp
next
  fix c cs x s rest
  assume "scanstring cs = Some x" and "(s, rest) = x"
  then show "(rest, c # cs) \<in> measure length"
    using scanstring_shorter [of cs s rest] by simp
next
  fix c cs x v rest
  assume "match_number (c # cs) = Some x" and "(v, rest) = x"
  then show "(rest, c # cs) \<in> measure length"
    using match_number_shorter [of "c # cs" v rest] by simp
qed simp_all

text \<open>
  The containers that are open, innermost first: an array with its elements so far,
  an object with its pairs so far, and an object whose next value belongs to a key.
\<close>

datatype frame =
    FArray "py_value list"
  | FObject "(string \<times> py_value) list"
  | FMember "(string \<times> py_value) list" string

text \<open>What the decoder expects next.\<close>

datatype expect =
    AValue
  | AValueOrClose
  | AKeyOrClose
  | AKey
  | AColon
  | ACommaOrClose
  | Finished py_value

text \<open>A value is complete: it is the result, an element or the value of a key.\<close>

fun complete_value :: "py_value \<Rightarrow> frame list \<Rightarrow> (frame list \<times> expect) option" where
  "complete_value v [] = Some ([], Finished v)"
| "complete_value v (FArray xs # st) = Some (FArray (xs @ [v]) # st, ACommaOrClose)"
| "complete_value v (FMember ps k # st) = Some (FObject (dict_set ps k v) # st, ACommaOrClose)"
| "complete_value v (FObject ps # st) = None"

fun open_value :: "token \<Rightarrow> frame list \<Rightarrow> (frame list \<times> expect) option" where
  "open_value (TScalar v) st = complete_value v st"
| "open_value (TString s) st = complete_value (PyStr s) st"
| "open_value LBracket st = Some (FArray [] # st, AValueOrClose)"
| "open_value LBrace st = Some (FObject [] # st, AKeyOrClose)"
| "open_value t st = None"

fun open_key :: "token \<Rightarrow> frame list \<Rightarrow> (frame list \<times> expect) option" where
  "open_key (TString k) (FObject ps # st) = Some (FMember ps k # st, AColon)"
| "open_key t st = None"

fun close_array :: "frame list \<Rightarrow> (frame list \<times> expect) option" where
  "close_array (FArray xs # st) = complete_value (PyList xs) st"
| "close_array st = None"

fun close_object :: "frame list \<Rightarrow> (frame list \<times> expect) option" where
  "close_object (FObject ps # st) = complete_value (PyDict ps) st"
| "close_object st = None"

fun after_comma :: "frame list \<Rightarrow> (frame list \<times> expect) option" where
  "after_comma (FArray xs # st) = Some (FArray xs # st, AValue)"
| "after_comma (FObject ps # st) = Some (FObject ps # st, AKey)"
| "after_comma st = None"

fun step :: "frame list \<times> expect \<Rightarrow> token \<Rightarrow> (frame list \<times> expect) option" where
  "step (st, AValue) t = open_value t st"
| "step (st, AValueOrClose) t = (if t = RBracket then close_array st else open_value t st)"
| "step (st, AKeyOrClose) t = (if t = RBrace then close_object st else open_key t st)"
| "step (st, AKey) t = open_key t st"
| "step (st, AColon) t = (if t = Colon then Some (st, AValue) else None)"
| "step (st, ACommaOrClose) t =
     (if t = Comma then after_comma st
      else if t = RBracket then close_array st
      else if t = RBrace then close_object st
      else None)"
| "step (st, Finished v) t = None"

fun run :: "frame list \<times> expect \<Rightarrow> token list \<Rightarrow> (frame list \<times> expect) option" where
  "run s [] = Some s"
| "run s (t # ts) = (case step s t of None \<Rightarrow> None | Some s' \<Rightarrow> run s' ts)"

definition json_loads :: "string \<Rightarrow> py_exception + py_value" where
  "json_loads s =
     (case tokenize s of
        None \<Rightarrow> Inl JSONDecodeError
      | Some ts \<Rightarrow>
          (case run ([], AValue) ts of
             Some ([], Finished v) \<Rightarrow> Inr v
           | _ \<Rightarrow> Inl JSONDecodeError))"


section \<open>The conversation agent\<close>

subsection \<open>Data\<close>

text \<open>A chat message, \<^verbatim>\<open>{"role": ..., "content": ...}\<close>.\<close>

record message =
  role :: string
  content :: string

text \<open>
  The fields of \<^verbatim>\<open>conversation.ConversationInput\<close> the turn reads (\<open>input_text\<close> is
  its \<^verbatim>\<open>text\<close>). An absent conversation id is \<^verbatim>\<open>None\<close>.
\<close>

record conversation_input =
  input_text :: string
  conversation_id :: "string option"
  language :: string

text \<open>
  \<^verbatim>\<open>intent.IntentResponse\<close>: \<^verbatim>\<open>async_set_speech(s)\<close> stores the speech;
  \<^verbatim>\<open>async_set_error(code, message)\<close> stores the code and speaks the message. The speech
  is whatever value the caller passes: the comment of a parsed answer need not be a
  \<^verbatim>\<open>str\<close>. \<^verbatim>\<open>conversation.ConversationResult\<close> pairs the response with the
  conversation id.
\<close>

datatype error_code = UNKNOWN

record intent_response =
  response_language :: string
  error_code :: "error_code option"
  speech :: py_value

record conversation_result =
  response :: intent_response
  result_conversation_id :: string

text \<open>
  The arguments of \<^verbatim>\<open>openai.ChatCompletion.acreate\<close>. The two sampling parameters are
  floats that are only passed on; their type is left open.
\<close>

record 'p chat_request =
  api_key :: string
  model :: string
  messages :: "message list"
  max_tokens :: int
  top_p :: 'p
  temperature :: 'p
  user :: string

text \<open>
  The config entry: \<^verbatim>\<open>entry.data[CONF_API_KEY]\<close> and the options, each absent or set.
  The defaults (\<^verbatim>\<open>DEFAULT_PROMPT\<close> and the others, constants of a module that is not
  among the sources) are taken as they come.
\<close>

record 'p config_entry =
  data_api_key :: string
  option_prompt :: "string option"
  option_chat_model :: "string option"
  option_max_tokens :: "int option"
  option_top_p :: "'p option"
  option_temperature :: "'p option"
  DEFAULT_PROMPT :: string
  DEFAULT_CHAT_MODEL :: string
  DEFAULT_MAX_TOKENS :: int
  DEFAULT_TOP_P :: 'p
  DEFAULT_TEMPERATURE :: 'p

text \<open>\<^verbatim>\<open>options.get(key, default)\<close>.\<close>

definition options_get :: "'a option \<Rightarrow> 'a \<Rightarrow> 'a" where
  "options_get v d = (case v of None \<Rightarrow> d | Some x \<Rightarrow> x)"

text \<open>
  What the turn gets from outside, for one turn:
  \<^item> \<open>ulid\<close>: the identifier \<^verbatim>\<open>ulid.ulid()\<close> returns;
  \<^item> \<open>location_name\<close>: \<^verbatim>\<open>hass.config.location_name\<close>;
  \<^item> \<open>async_render\<close>: the template engine, on a template and its variables;
  \<^item> \<open>acreate\<close>: the provider's answer to a request, as the text
    \<^verbatim>\<open>result["choices"][0]["message"]["content"]\<close> (the answer is taken to hold
    one, a \<^verbatim>\<open>str\<close>), or the exception raised;
  \<^item> \<open>async_call\<close>: \<^verbatim>\<open>hass.services.async_call(domain, service, data)\<close>, which
    returns or raises;
  \<^item> \<open>str_exc\<close>, \<open>format_exc\<close>, \<open>repr\<close>: the texts \<^verbatim>\<open>str(err)\<close>,
    \<^verbatim>\<open>traceback.format_exc()\<close> (while \<^verbatim>\<open>err\<close> is handled) and \<^verbatim>\<open>repr(v)\<close>.
\<close>

record 'p env =
  ulid :: string
  location_name :: string
  async_render :: "string \<Rightarrow> (string \<times> string) list \<Rightarrow> py_exception + string"
  acreate :: "'p chat_request \<Rightarrow> py_exception + string"
  async_call :: "py_value \<Rightarrow> py_value \<Rightarrow> py_value \<Rightarrow> py_exception option"
  str_exc :: "py_exception \<Rightarrow> string"
  format_exc :: "py_exception \<Rightarrow> string"
  repr :: "py_value \<Rightarrow> string"

text \<open>
  The state a turn changes: \<^verbatim>\<open>self.history\<close>, and the calls made to the two
  effectful collaborators, in order (\<open>sent\<close>: the requests to the provider;
  \<open>called\<close>: the service calls).
\<close>

record 'p state =
  history :: "string \<rightharpoonup> message list"
  sent :: "'p chat_request list"
  called :: "(py_value \<times> py_value \<times> py_value) list"

text \<open>How a block of the function ends: it raises, it returns from the function, or it goes on.\<close>

datatype 'a flow = Raise py_exception | Return conversation_result | Go 'a

subsection \<open>\<^verbatim>\<open>OpenAIAgent.async_process\<close>\<close>

definition NL :: string where
  "NL = [CHR 0x0A]"

definition new_message :: "conversation_input \<Rightarrow> message" where
  "new_message user_input =
     \<lparr>role = ''user'',
      content = input_text user_input @ '' Answer in syntactially perfect json and only json,''\<rparr>"

text \<open>The response after \<^verbatim>\<open>async_set_error(UNKNOWN, message)\<close>, and after \<^verbatim>\<open>async_set_speech(comment)\<close>.\<close>

definition error_response :: "conversation_input \<Rightarrow> string \<Rightarrow> intent_response" where
  "error_response user_input message =
     \<lparr>response_language = language user_input, error_code = Some UNKNOWN, speech = PyStr message\<rparr>"

definition speech_response :: "conversation_input \<Rightarrow> py_value \<Rightarrow> intent_response" where
  "speech_response user_input comment =
     \<lparr>response_language = language user_input, error_code = None, speech = comment\<rparr>"

text \<open>\<^verbatim>\<open>_async_generate_prompt\<close>.\<close>

definition async_generate_prompt :: "'p env \<Rightarrow> string \<Rightarrow> py_exception + string" where
  "async_generate_prompt env raw_prompt =
     async_render env raw_prompt [(''ha_name'', location_name env)]"

text \<open>
  \<^verbatim>\<open>user_input.conversation_id in self.history\<close>, with the stored list when it holds
  (\<^verbatim>\<open>None\<close> is never a key).
\<close>

definition lookup_history :: "'p state \<Rightarrow> string option \<Rightarrow> (string \<times> message list) option" where
  "lookup_history s cid =
     (case cid of
        None \<Rightarrow> None
      | Some c \<Rightarrow> (case history s c of None \<Rightarrow> None | Some h \<Rightarrow> Some (c, h)))"

text \<open>
  Lines 147 to 168: the conversation id and the messages of the turn. Only a
  \<^verbatim>\<open>TemplateError\<close> is caught.
\<close>

definition build_messages ::
  "'p env \<Rightarrow> 'p config_entry \<Rightarrow> 'p state \<Rightarrow> conversation_input \<Rightarrow> (string \<times> message list) flow" where
  \<open>build_messages env entry s user_input =
     (case lookup_history s (conversation_id user_input) of
        Some (c, h) \<Rightarrow> Go (c, h @ [new_message user_input])
      | None \<Rightarrow>
          (case async_generate_prompt env (options_get (option_prompt entry) (DEFAULT_PROMPT entry)) of
             Inl err \<Rightarrow>
               (case err of
                  TemplateError m \<Rightarrow>
                    Return
                      \<lparr>response = error_response user_input
                         (''Sorry, I had a problem with my template: '' @ str_exc env err),
                       result_conversation_id = ulid env\<rparr>
                | _ \<Rightarrow> Raise err)
           | Inr prompt \<Rightarrow>
               Go (ulid env,
                   [\<lparr>role = ''user'', content = prompt\<rparr>,
                    \<lparr>role = ''assistant'', content = ''{"comment":"Got it!"}''\<rparr>,
                    new_message user_input])))\<close>

text \<open>The request of lines 175 to 183.\<close>

definition request :: "'p config_entry \<Rightarrow> string \<Rightarrow> message list \<Rightarrow> 'p chat_request" where
  "request entry cid msgs =
     \<lparr>api_key = data_api_key entry,
      model = options_get (option_chat_model entry) (DEFAULT_CHAT_MODEL entry),
      messages = msgs,
      max_tokens = options_get (option_max_tokens entry) (DEFAULT_MAX_TOKENS entry),
      top_p = options_get (option_top_p entry) (DEFAULT_TOP_P entry),
      temperature = options_get (option_temperature entry) (DEFAULT_TEMPERATURE entry),
      user = cid\<rparr>"

text \<open>
  Lines 201 to 204, the body of the first \<^verbatim>\<open>try\<close>: the text the variable
  \<^verbatim>\<open>response\<close> holds after line 201 (written \<open>response'\<close>), and either the exception raised or the comment with the object it
  was deleted from.
\<close>

definition parse_response :: "string \<Rightarrow> string \<times> (py_exception + py_value \<times> py_value)" where
  "parse_response raw =
     (let response' = str_replace '',}'' ''}'' raw in
      (response',
       case json_loads response' of
         Inl err \<Rightarrow> Inl err
       | Inr response_json \<Rightarrow>
           (case getitem response_json ''comment'' of
              Inl err \<Rightarrow> Inl err
            | Inr comment \<Rightarrow>
                (case delitem response_json ''comment'' of
                   Inl err \<Rightarrow> Inl err
                 | Inr rest \<Rightarrow> Inr (comment, rest)))))"

text \<open>
  Lines 215 to 223, the body of the second \<^verbatim>\<open>try\<close>: the exception it raises, if any,
  and the state after it. The three arguments are evaluated in order, then the
  service is called.
\<close>

definition call_command :: "'p env \<Rightarrow> py_value \<Rightarrow> 'p state \<Rightarrow> py_exception option \<times> 'p state" where
  "call_command env response_json s =
     (case has_key response_json ''command'' of
        Inl err \<Rightarrow> (Some err, s)
      | Inr present \<Rightarrow>
          if present then
            (case getitem response_json ''command'' of
               Inl err \<Rightarrow> (Some err, s)
             | Inr command \<Rightarrow>
                 if is_dict command then
                   (case getitem command ''domain'' of
                      Inl err \<Rightarrow> (Some err, s)
                    | Inr domain \<Rightarrow>
                        (case getitem command ''service'' of
                           Inl err \<Rightarrow> (Some err, s)
                         | Inr service \<Rightarrow>
                             (case getitem command ''data'' of
                                Inl err \<Rightarrow> (Some err, s)
                              | Inr data \<Rightarrow>
                                  (async_call env domain service data,
                                   s\<lparr>called := called s @ [(domain, service, data)]\<rparr>))))
                 else (None, s))
          else (None, s))"

text \<open>
  Lines 225 to 227, in the handler of the second \<^verbatim>\<open>try\<close>: the comment, or the
  exception its three subscripts raise. No handler is around this one.
\<close>

definition unable_to_execute :: "'p env \<Rightarrow> py_value \<Rightarrow> py_exception \<Rightarrow> py_exception + string" where
  "unable_to_execute env response_json err =
     (case getitem response_json ''command'' of
        Inl e \<Rightarrow> Inl e
      | Inr command \<Rightarrow>
          (case getitem command ''domain'' of
             Inl e \<Rightarrow> Inl e
           | Inr domain \<Rightarrow>
               (case getitem command ''service'' of
                  Inl e \<Rightarrow> Inl e
                | Inr service \<Rightarrow>
                    (case getitem command ''data'' of
                       Inl e \<Rightarrow> Inl e
                     | Inr data \<Rightarrow>
                         Inr (''Unable to execute: ''
                              @ ''('' @ repr env domain @ '', '' @ repr env service @ '', ''
                              @ repr env data @ '')''
                              @ '' '' @ NL @ '' Error: '' @ str_exc env err @ NL
                              @ format_exc env err)))))"

text \<open>Lines 214 to 240.\<close>

definition dispatch ::
  "'p env \<Rightarrow> conversation_input \<Rightarrow> string \<Rightarrow> py_value \<Rightarrow> py_value \<Rightarrow> 'p state
    \<Rightarrow> (py_exception + conversation_result) \<times> 'p state" where
  "dispatch env user_input cid comment response_json s =
     (case call_command env response_json s of
        (Some err, s') \<Rightarrow>
          (case unable_to_execute env response_json err of
             Inl e \<Rightarrow> (Inl e, s')
           | Inr text \<Rightarrow>
               (Inr \<lparr>response = speech_response user_input (PyStr text),
                     result_conversation_id = cid\<rparr>, s'))
      | (None, s') \<Rightarrow>
          (Inr \<lparr>response = speech_response user_input comment, result_conversation_id = cid\<rparr>, s'))"

text \<open>
  The whole turn: the result (the exception that leaves the function, or the
  \<^verbatim>\<open>ConversationResult\<close> returned) and the state after it. Logging is left out. Only an
  \<^verbatim>\<open>OpenAIError\<close> of the provider is caught; the two later handlers catch every
  \<^verbatim>\<open>Exception\<close>.
\<close>

definition async_process ::
  "'p env \<Rightarrow> 'p config_entry \<Rightarrow> conversation_input \<Rightarrow> 'p state
    \<Rightarrow> (py_exception + conversation_result) \<times> 'p state" where
  "async_process env entry user_input s =
     (case build_messages env entry s user_input of
        Raise err \<Rightarrow> (Inl err, s)
      | Return r \<Rightarrow> (Inr r, s)
      | Go (cid, msgs) \<Rightarrow>
          (let s1 = s\<lparr>sent := sent s @ [request entry cid msgs]\<rparr> in
           case acreate env (request entry cid msgs) of
             Inl err \<Rightarrow>
               (case err of
                  OpenAIError m \<Rightarrow>
                    (Inr \<lparr>response = error_response user_input
                            (''Sorry, I had a problem talking to OpenAI: '' @ str_exc env err),
                          result_conversation_id = cid\<rparr>, s1)
                | _ \<Rightarrow> (Inl err, s1))
           | Inr raw \<Rightarrow>
               (let s2 = s1\<lparr>history := (history s1)(cid \<mapsto> msgs @ [\<lparr>role = ''assistant'', content = raw\<rparr>])\<rparr> in
                case parse_response raw of
                  (response', Inl err) \<Rightarrow>
                    (Inr \<lparr>response = speech_response user_input
                            (PyStr (''Unable to parse: '' @ response' @ NL @ ''Error: ''
                                    @ str_exc env err @ NL @ format_exc env err)),
                          result_conversation_id = cid\<rparr>, s2)
                | (response', Inr (comment, response_json)) \<Rightarrow>
                    dispatch env user_input cid comment response_json s2)))"

text \<open>\<^verbatim>\<open>x in s\<close> for two texts: \<open>x\<close> occurs in \<open>s\<close>.\<close>

fun occurs_in :: "string \<Rightarrow> string \<Rightarrow> bool" where
  "occurs_in x [] = (x = [])"
| "occurs_in x (c # cs) = (take (length x) (c # cs) = x \<or> occurs_in x cs)"


subsection \<open>Concrete collaborators for the worked examples\<close>

text \<open>
  A provider that answers with a fixed text, a template engine that returns the template,
  a host that runs every service, and the texts CPython prints for the exceptions the
  examples meet.
\<close>

fun example_str :: "py_exception \<Rightarrow> string" where
  "example_str (TemplateError m) = m"
| "example_str (OpenAIError m) = m"
| "example_str JSONDecodeError = ''Expecting value: line 1 column 1 (char 0)''"
| "example_str (KeyError k) = [CHR 0x27] @ k @ [CHR 0x27]"
| "example_str TypeError = ''list indices must be integers or slices, not str''"
| "example_str (OtherException m) = m"

fun example_repr :: "py_value \<Rightarrow> string" where
  "example_repr (PyStr s) = [CHR 0x27] @ s @ [CHR 0x27]"
| "example_repr (PyDict []) = ''{}''"
| "example_repr v = ''...''"

definition example_entry :: "string config_entry" where
  "example_entry =
     \<lparr>data_api_key = ''sk-example'',
      option_prompt = None, option_chat_model = None, option_max_tokens = None,
      option_top_p = None, option_temperature = None,
      DEFAULT_PROMPT = ''You are the voice assistant of a smart home.'',
      DEFAULT_CHAT_MODEL = ''gpt-3.5-turbo'', DEFAULT_MAX_TOKENS = 150,
      DEFAULT_TOP_P = ''1'', DEFAULT_TEMPERATURE = ''0.5''\<rparr>"

definition example_env :: "string \<Rightarrow> string env" where
  "example_env reply =
     \<lparr>ulid = ''01HF3Z7Q2N8K4V6T1X9B5C0DME'',
      location_name = ''Home'',
      async_render = (\<lambda>template variables. Inr template),
      acreate = (\<lambda>req. Inr reply),
      async_call = (\<lambda>domain service data. None),
      str_exc = example_str,
      format_exc = (\<lambda>err. ''Traceback (most recent call last): (frames)''),
      repr = example_repr\<rparr>"

definition example_input :: conversation_input where
  "example_input =
     \<lparr>input_text = ''turn on the light'', conversation_id = None, language = ''en''\<rparr>"

definition empty_state :: "string state" where
  "empty_state = \<lparr>history = Map.empty, sent = [], called = []\<rparr>"

definition known_history :: "message list" where
  \<open>known_history =
     [\<lparr>role = ''user'', content = ''You are the voice assistant of a smart home.''\<rparr>,
      \<lparr>role = ''assistant'', content = ''{"comment":"Got it!"}''\<rparr>,
      \<lparr>role = ''user'', content = ''hello Answer in syntactially perfect json and only json,''\<rparr>,
      \<lparr>role = ''assistant'', content = ''{"comment":"Hello!"}''\<rparr>]\<close>

definition known_state :: "string state" where
  "known_state =
     \<lparr>history = [''01HF3Z0000AAAAAAAAAAAAAAAA'' \<mapsto> known_history], sent = [], called = []\<rparr>"

definition known_input :: conversation_input where
  "known_input =
     \<lparr>input_text = ''turn on the light'',
      conversation_id = Some ''01HF3Z0000AAAAAAAAAAAAAAAA'', language = ''en''\<rparr>"

section \<open>Properties\<close>

subsection \<open>Auxiliary facts\<close>

lemmas example_defs = example_entry_def example_env_def example_input_def empty_state_def
  known_state_def known_input_def

lemmas json_defs = json_loads_def getitem_def delitem_def is_ws_def emit_def prepend_def
  match_number_def match_sign_def match_integer_def match_frac_def match_exp_def is_digit_def

lemma occurs_in_iff: "occurs_in x s \<longleftrightarrow> (\<exists>ps ss. s = ps @ x @ ss)"
proof (induction s)
  case Nil
  show ?case by auto
next
  case (Cons c cs)
  have pre: "take (length x) (c # cs) = x \<longleftrightarrow> (\<exists>ss. c # cs = x @ ss)"
  proof
    assume "take (length x) (c # cs) = x"
    then have "c # cs = x @ drop (length x) (c # cs)"
      by (metis append_take_drop_id)
    then show "\<exists>ss. c # cs = x @ ss" ..
  next
    assume "\<exists>ss. c # cs = x @ ss"
    then show "take (length x) (c # cs) = x" by auto
  qed
  have "(\<exists>ps ss. c # cs = ps @ x @ ss) \<longleftrightarrow>
        (\<exists>ss. c # cs = x @ ss) \<or> (\<exists>ps ss. cs = ps @ x @ ss)"
  proof
    assume "\<exists>ps ss. c # cs = ps @ x @ ss"
    then obtain ps ss where e: "c # cs = ps @ x @ ss" by blast
    show "(\<exists>ss. c # cs = x @ ss) \<or> (\<exists>ps ss. cs = ps @ x @ ss)"
    proof (cases ps)
      case Nil
      with e show ?thesis by auto
    next
      case (Cons p ps')
      with e have "cs = ps' @ x @ ss" by simp
      then show ?thesis by blast
    qed
  next
    assume "(\<exists>ss. c # cs = x @ ss) \<or> (\<exists>ps ss. cs = ps @ x @ ss)"
    then show "\<exists>ps ss. c # cs = ps @ x @ ss"
    proof
      assume "\<exists>ss. c # cs = x @ ss"
      then obtain ss where "c # cs = [] @ x @ ss" by auto
      then show ?thesis by blast
    next
      assume "\<exists>ps ss. cs = ps @ x @ ss"
      then obtain ps ss where "c # cs = (c # ps) @ x @ ss" by auto
      then show ?thesis by blast
    qed
  qed
  with pre Cons.IH show ?case by simp
qed

lemma str_replace_absent:
  "old \<noteq> [] \<Longrightarrow> \<not> occurs_in old s \<Longrightarrow> str_replace old new s = s"
  by (induction s) auto

lemma getitem_has_key: "getitem obj k = Inr v \<Longrightarrow> has_key obj k = Inr True"
  by (auto simp: getitem_def has_key_def rev_image_eqI
      split: py_value.splits option.splits dest!: map_of_SomeD)

lemma call_command_frame:
  "history (snd (call_command env response_json s)) = history s \<and>
   sent (snd (call_command env response_json s)) = sent s"
  by (simp add: call_command_def split: sum.splits)

lemma dispatch_frame:
  "history (snd (dispatch env user_input cid comment response_json s)) = history s \<and>
   sent (snd (dispatch env user_input cid comment response_json s)) = sent s"
proof -
  obtain e s' where c: "call_command env response_json s = (e, s')"
    by (cases "call_command env response_json s")
  with call_command_frame [of env response_json s]
  have "history s' = history s \<and> sent s' = sent s"
    by simp
  with c show ?thesis
    by (simp add: dispatch_def split: option.splits sum.splits)
qed

text \<open>The turn after the provider has answered: the history is stored, then the answer is parsed.\<close>

lemma async_process_completed:
  assumes "build_messages env entry s user_input = Go (cid, msgs)"
    and "acreate env (request entry cid msgs) = Inr raw"
  shows "async_process env entry user_input s =
    (case parse_response raw of
       (response', Inl err) \<Rightarrow>
         (Inr \<lparr>response = speech_response user_input
                 (PyStr (''Unable to parse: '' @ response' @ NL @ ''Error: ''
                         @ str_exc env err @ NL @ format_exc env err)),
               result_conversation_id = cid\<rparr>,
          s\<lparr>sent := sent s @ [request entry cid msgs],
            history := (history s)(cid \<mapsto> msgs @ [\<lparr>role = ''assistant'', content = raw\<rparr>])\<rparr>)
     | (response', Inr (comment, response_json)) \<Rightarrow>
         dispatch env user_input cid comment response_json
           (s\<lparr>sent := sent s @ [request entry cid msgs],
              history := (history s)(cid \<mapsto> msgs @ [\<lparr>role = ''assistant'', content = raw\<rparr>])\<rparr>))"
  using assms by (simp add: async_process_def Let_def split: prod.splits sum.splits)

text \<open>Where the messages of a turn come from: a stored conversation, or a new one.\<close>

lemma build_messages_Go:
  assumes "build_messages env entry s user_input = Go (cid, msgs)"
  shows \<open>(\<exists>h. lookup_history s (conversation_id user_input) = Some (cid, h) \<and>
              msgs = h @ [new_message user_input]) \<or>
         (lookup_history s (conversation_id user_input) = None \<and> cid = ulid env \<and>
          (\<exists>prompt.
             async_generate_prompt env (options_get (option_prompt entry) (DEFAULT_PROMPT entry))
               = Inr prompt \<and>
             msgs = [\<lparr>role = ''user'', content = prompt\<rparr>,
                     \<lparr>role = ''assistant'', content = ''{"comment":"Got it!"}''\<rparr>,
                     new_message user_input]))\<close>
  using assms
  by (auto simp: build_messages_def split: option.splits sum.splits py_exception.splits)

lemma build_messages_known:
  "lookup_history s (conversation_id user_input) = Some (c, h) \<Longrightarrow>
   build_messages env entry s user_input = Go (c, h @ [new_message user_input])"
  by (simp add: build_messages_def)

lemma sent_async_process_Go:
  assumes "build_messages env entry s user_input = Go (cid, msgs)"
  shows "sent (snd (async_process env entry user_input s)) = sent s @ [request entry cid msgs]"
proof (cases "acreate env (request entry cid msgs)")
  case (Inl err)
  with assms show ?thesis
    by (simp add: async_process_def Let_def split: py_exception.splits)
next
  case (Inr raw)
  obtain r p where p: "parse_response raw = (r, p)"
    by (cases "parse_response raw")
  let ?s2 = "s\<lparr>sent := sent s @ [request entry cid msgs],
               history := (history s)(cid \<mapsto> msgs @ [\<lparr>role = ''assistant'', content = raw\<rparr>])\<rparr>"
  show ?thesis
  proof (cases p)
    case (Inl err)
    with p async_process_completed [OF assms Inr] show ?thesis by simp
  next
    case inr: (Inr cr)
    obtain comment rj where "cr = (comment, rj)" by (cases cr)
    with inr p async_process_completed [OF assms Inr]
    have "async_process env entry user_input s = dispatch env user_input cid comment rj ?s2"
      by simp
    then show ?thesis using dispatch_frame [of env user_input cid comment rj ?s2] by simp
  qed
qed


subsection \<open>The parse step on the documented inputs\<close>

text \<open>
  Claim C4. The text
  \<^verbatim>\<open>{"comment":"hi","command":{"domain":"light","service":"turn_on","data":{}},}\<close>
  is not JSON as it stands (its trailing comma makes \<^verbatim>\<open>json.loads\<close> fail), and the parse
  step succeeds on it: line 201 removes the comma before the closing brace, the comment
  is \<^verbatim>\<open>"hi"\<close>, and the object that remains has lost its \<^verbatim>\<open>comment\<close> key and holds
  the command \<^verbatim>\<open>{"domain":"light","service":"turn_on","data":{}}\<close>.
\<close>

theorem parse_repairs_trailing_comma:
  \<open>json_loads ''{"comment":"hi","command":{"domain":"light","service":"turn_on","data":{}},}''
     = Inl JSONDecodeError \<and>
   parse_response ''{"comment":"hi","command":{"domain":"light","service":"turn_on","data":{}},}''
     = (''{"comment":"hi","command":{"domain":"light","service":"turn_on","data":{}}}'',
        Inr (PyStr ''hi'',
             PyDict [(''command'',
                      PyDict [(''domain'', PyStr ''light''), (''service'', PyStr ''turn_on''),
                              (''data'', PyDict [])])]))\<close>
  by (simp add: parse_response_def json_defs)

text \<open>
  Claim C10. The repair of line 201 replaces \<^verbatim>\<open>,}\<close> by \<^verbatim>\<open>}\<close> everywhere in the raw
  text, inside string literals too. The text \<^verbatim>\<open>{"comment":"a,}b"}\<close> is valid JSON whose
  \<^verbatim>\<open>comment\<close> is \<^verbatim>\<open>a,}b\<close>; the parse step reads \<^verbatim>\<open>{"comment":"a}b"}\<close> instead and
  returns the comment \<^verbatim>\<open>a}b\<close>.
\<close>

theorem repair_rewrites_string_literal:
  \<open>fst (parse_response raw) = str_replace '',}'' ''}'' raw \<and>
   json_loads ''{"comment":"a,}b"}'' = Inr (PyDict [(''comment'', PyStr ''a,}b'')]) \<and>
   parse_response ''{"comment":"a,}b"}'' = (''{"comment":"a}b"}'', Inr (PyStr ''a}b'', PyDict []))\<close>
  by (simp add: parse_response_def json_defs Let_def)

subsection \<open>Failures that leave the turn\<close>

text \<open>
  Claim C1 says that no failure leaves \<^verbatim>\<open>async_process\<close> as an exception, also when the
  command lacks one of its three keys. The handler of the dispatch (lines 225 to 227)
  reads the three keys again, outside any \<^verbatim>\<open>try\<close>: for the answer
  \<^verbatim>\<open>{"comment":"On it","command":{"domain":"light","service":"turn_on"}}\<close> the
  \<^verbatim>\<open>KeyError\<close> for \<^verbatim>\<open>data\<close> is caught once and raised again by the handler, and
  leaves the function.
\<close>

theorem missing_data_key_escapes:
  \<open>fst (async_process
          (example_env ''{"comment":"On it","command":{"domain":"light","service":"turn_on"}}'')
          example_entry example_input empty_state)
     = Inl (KeyError ''data'')\<close>
  by (simp add: async_process_def build_messages_def lookup_history_def async_generate_prompt_def
      options_get_def request_def new_message_def parse_response_def dispatch_def call_command_def
      unable_to_execute_def is_dict_def has_key_def example_defs json_defs Let_def)


subsection \<open>The history\<close>

text \<open>
  Claim C2. When the provider answers with a text, the history of the turn's
  conversation id becomes, once and for all, the messages that were there before
  (the stored list for a known id; the rendered prompt and the fixed assistant reply
  for a new one) followed by the new user message and the raw answer. Every other
  conversation keeps its list. Nothing is assumed about the parse or the dispatch:
  the same holds when either fails, and when the dispatch handler raises.
\<close>

theorem history_committed_once:
  assumes "build_messages env entry s user_input = Go (cid, prev @ [new_message user_input])"
    and "acreate env (request entry cid (prev @ [new_message user_input])) = Inr raw"
  shows \<open>history (snd (async_process env entry user_input s)) =
           (history s)(cid \<mapsto> prev @ [new_message user_input, \<lparr>role = ''assistant'', content = raw\<rparr>]) \<and>
         (lookup_history s (conversation_id user_input) = Some (cid, prev) \<or>
          lookup_history s (conversation_id user_input) = None \<and> cid = ulid env \<and>
          (\<exists>prompt. prev = [\<lparr>role = ''user'', content = prompt\<rparr>,
                              \<lparr>role = ''assistant'', content = ''{"comment":"Got it!"}''\<rparr>]))\<close>
proof
  let ?msgs = "prev @ [new_message user_input]"
  let ?s2 = "s\<lparr>sent := sent s @ [request entry cid ?msgs],
               history := (history s)(cid \<mapsto> ?msgs @ [\<lparr>role = ''assistant'', content = raw\<rparr>])\<rparr>"
  obtain r p where p: "parse_response raw = (r, p)"
    by (cases "parse_response raw")
  show "history (snd (async_process env entry user_input s)) =
           (history s)(cid \<mapsto> prev @ [new_message user_input, \<lparr>role = ''assistant'', content = raw\<rparr>])"
  proof (cases p)
    case (Inl err)
    with p async_process_completed [OF assms] show ?thesis by simp
  next
    case (Inr cr)
    obtain comment rj where "cr = (comment, rj)" by (cases cr)
    with Inr p async_process_completed [OF assms]
    have "async_process env entry user_input s = dispatch env user_input cid comment rj ?s2"
      by simp
    then show ?thesis using dispatch_frame [of env user_input cid comment rj ?s2] by simp
  qed
next
  from build_messages_Go [OF assms(1)]
  show \<open>lookup_history s (conversation_id user_input) = Some (cid, prev) \<or>
          lookup_history s (conversation_id user_input) = None \<and> cid = ulid env \<and>
          (\<exists>prompt. prev = [\<lparr>role = ''user'', content = prompt\<rparr>,
                              \<lparr>role = ''assistant'', content = ''{"comment":"Got it!"}''\<rparr>])\<close>
    by auto
qed

text \<open>A known conversation whose answer does not parse: the raw answer is stored.\<close>

theorem history_committed_once_witness:
  \<open>build_messages (example_env ''not json'') example_entry known_state known_input
     = Go (''01HF3Z0000AAAAAAAAAAAAAAAA'', known_history @ [new_message known_input]) \<and>
   acreate (example_env ''not json'')
     (request example_entry ''01HF3Z0000AAAAAAAAAAAAAAAA'' (known_history @ [new_message known_input]))
     = Inr ''not json'' \<and>
   history (snd (async_process (example_env ''not json'') example_entry known_input known_state))
     = (history known_state)(''01HF3Z0000AAAAAAAAAAAAAAAA'' \<mapsto>
          known_history @ [new_message known_input, \<lparr>role = ''assistant'', content = ''not json''\<rparr>])\<close>
proof -
  have b: "build_messages (example_env ''not json'') example_entry known_state known_input
     = Go (''01HF3Z0000AAAAAAAAAAAAAAAA'', known_history @ [new_message known_input])"
    by (simp add: build_messages_def lookup_history_def example_defs)
  have a: "acreate (example_env ''not json'')
     (request example_entry ''01HF3Z0000AAAAAAAAAAAAAAAA'' (known_history @ [new_message known_input]))
     = Inr ''not json''"
    by (simp add: example_env_def)
  from history_committed_once [OF b a] b a show ?thesis by simp
qed

text \<open>
  Claim C3. When the provider call raises an \<^verbatim>\<open>OpenAIError\<close>, the history map is the
  one the turn started with (nothing appended, no entry created), no service is
  called, and the turn returns the spoken error \<^verbatim>\<open>Sorry, I had a problem talking to
  OpenAI: ...\<close> with the conversation id of the turn (the given id when it is stored,
  the new one otherwise).
\<close>

theorem provider_error_leaves_history:
  assumes "build_messages env entry s user_input = Go (cid, msgs)"
    and "acreate env (request entry cid msgs) = Inl (OpenAIError m)"
  shows "history (snd (async_process env entry user_input s)) = history s \<and>
         called (snd (async_process env entry user_input s)) = called s \<and>
         fst (async_process env entry user_input s) =
           Inr \<lparr>response =
                  \<lparr>response_language = language user_input, error_code = Some UNKNOWN,
                   speech = PyStr (''Sorry, I had a problem talking to OpenAI: ''
                                   @ str_exc env (OpenAIError m))\<rparr>,
                result_conversation_id = cid\<rparr> \<and>
         cid = (case lookup_history s (conversation_id user_input) of
                  Some (c, h) \<Rightarrow> c | None \<Rightarrow> ulid env)"
proof -
  from build_messages_Go [OF assms(1)]
  have "cid = (case lookup_history s (conversation_id user_input) of
                  Some (c, h) \<Rightarrow> c | None \<Rightarrow> ulid env)"
    by auto
  with assms show ?thesis
    by (simp add: async_process_def Let_def error_response_def)
qed

theorem provider_error_leaves_history_witness:
  "build_messages ((example_env '''')\<lparr>acreate := \<lambda>req. Inl (OpenAIError ''Rate limit reached'')\<rparr>)
       example_entry known_state known_input
     = Go (''01HF3Z0000AAAAAAAAAAAAAAAA'', known_history @ [new_message known_input]) \<and>
   history (snd (async_process
       ((example_env '''')\<lparr>acreate := \<lambda>req. Inl (OpenAIError ''Rate limit reached'')\<rparr>)
       example_entry known_input known_state)) = history known_state \<and>
   fst (async_process
       ((example_env '''')\<lparr>acreate := \<lambda>req. Inl (OpenAIError ''Rate limit reached'')\<rparr>)
       example_entry known_input known_state) =
     Inr \<lparr>response =
            \<lparr>response_language = ''en'', error_code = Some UNKNOWN,
             speech = PyStr ''Sorry, I had a problem talking to OpenAI: Rate limit reached''\<rparr>,
          result_conversation_id = ''01HF3Z0000AAAAAAAAAAAAAAAA''\<rparr>"
proof -
  let ?env = "(example_env '''')\<lparr>acreate := \<lambda>req. Inl (OpenAIError ''Rate limit reached'')\<rparr>"
  have b: "build_messages ?env example_entry known_state known_input
     = Go (''01HF3Z0000AAAAAAAAAAAAAAAA'', known_history @ [new_message known_input])"
    by (simp add: build_messages_def lookup_history_def example_defs)
  have a: "acreate ?env
     (request example_entry ''01HF3Z0000AAAAAAAAAAAAAAAA'' (known_history @ [new_message known_input]))
     = Inl (OpenAIError ''Rate limit reached'')"
    by simp
  have l: "language known_input = ''en''" and e: "str_exc ?env = example_str"
    by (simp_all add: example_defs)
  from provider_error_leaves_history [OF b a] b show ?thesis
    by (simp add: l e)
qed

subsection \<open>The command\<close>

lemma dispatch_skipped:
  assumes "getitem response_json ''command'' = Inr v" and "\<not> is_dict v"
  shows "dispatch env user_input cid comment response_json s =
           (Inr \<lparr>response = speech_response user_input comment, result_conversation_id = cid\<rparr>, s)"
  using assms by (simp add: dispatch_def call_command_def getitem_has_key)

text \<open>
  Claim C5. When the parsed object has a \<^verbatim>\<open>command\<close> whose value is not a dict, the
  turn returns the comment as speech, with no error code, and calls no service.
\<close>

theorem non_mapping_command_ignored:
  assumes "build_messages env entry s user_input = Go (cid, msgs)"
    and "acreate env (request entry cid msgs) = Inr raw"
    and "parse_response raw = (response', Inr (comment, response_json))"
    and "getitem response_json ''command'' = Inr v"
    and "\<not> is_dict v"
  shows "fst (async_process env entry user_input s) =
           Inr \<lparr>response =
                  \<lparr>response_language = language user_input, error_code = None, speech = comment\<rparr>,
                result_conversation_id = cid\<rparr> \<and>
         called (snd (async_process env entry user_input s)) = called s"
  using async_process_completed [OF assms(1,2)] assms(3)
  by (simp add: dispatch_skipped [OF assms(4,5)] speech_response_def)

text \<open>The answer \<^verbatim>\<open>{"comment":"hi","command":"not a dict"}\<close>.\<close>

theorem non_mapping_command_ignored_witness:
  \<open>parse_response ''{"comment":"hi","command":"not a dict"}''
     = (''{"comment":"hi","command":"not a dict"}'',
        Inr (PyStr ''hi'', PyDict [(''command'', PyStr ''not a dict'')])) \<and>
   getitem (PyDict [(''command'', PyStr ''not a dict'')]) ''command'' = Inr (PyStr ''not a dict'') \<and>
   \<not> is_dict (PyStr ''not a dict'') \<and>
   fst (async_process (example_env ''{"comment":"hi","command":"not a dict"}'')
          example_entry example_input empty_state) =
     Inr \<lparr>response = \<lparr>response_language = ''en'', error_code = None, speech = PyStr ''hi''\<rparr>,
          result_conversation_id = ''01HF3Z7Q2N8K4V6T1X9B5C0DME''\<rparr> \<and>
   called (snd (async_process (example_env ''{"comment":"hi","command":"not a dict"}'')
          example_entry example_input empty_state)) = []\<close>
proof -
  let ?raw = \<open>''{"comment":"hi","command":"not a dict"}''\<close>
  let ?msgs = \<open>[\<lparr>role = ''user'', content = ''You are the voice assistant of a smart home.''\<rparr>,
      \<lparr>role = ''assistant'', content = ''{"comment":"Got it!"}''\<rparr>, new_message example_input]\<close>
  have b: "build_messages (example_env ?raw) example_entry empty_state example_input
     = Go (''01HF3Z7Q2N8K4V6T1X9B5C0DME'', ?msgs)"
    by (simp add: build_messages_def lookup_history_def async_generate_prompt_def options_get_def
        example_defs)
  have a: "acreate (example_env ?raw) (request example_entry ''01HF3Z7Q2N8K4V6T1X9B5C0DME'' ?msgs)
     = Inr ?raw"
    by (simp add: example_env_def)
  have p: "parse_response ?raw
     = (?raw, Inr (PyStr ''hi'', PyDict [(''command'', PyStr ''not a dict'')]))"
    by (simp add: parse_response_def json_defs)
  have g: "getitem (PyDict [(''command'', PyStr ''not a dict'')]) ''command'' = Inr (PyStr ''not a dict'')"
    by (simp add: getitem_def)
  have d: "\<not> is_dict (PyStr ''not a dict'')"
    by (simp add: is_dict_def)
  from non_mapping_command_ignored [OF b a p g d] p g d show ?thesis
    by (simp add: example_defs)
qed

subsection \<open>Parse failures\<close>

text \<open>
  Claim C6 says that the diagnostic of a parse failure holds the raw answer verbatim.
  The handler prints the variable \<^verbatim>\<open>response\<close>, which line 201 has already replaced
  by the repaired text. For the answer \<^verbatim>\<open>not json,}\<close> the diagnostic reads
  \<^verbatim>\<open>Unable to parse: not json}\<close>, then the decoder's message and the traceback (here
  cut to its first line; the frames of a traceback quote the program's source lines
  and the message, not the answer): the raw answer does not occur in it.
\<close>

theorem parse_failure_raw_text_counterexample:
  \<open>parse_response ''not json,}'' = (''not json}'', Inl JSONDecodeError) \<and>
   fst (async_process (example_env ''not json,}'') example_entry example_input empty_state) =
     Inr \<lparr>response =
            \<lparr>response_language = ''en'', error_code = None,
             speech = PyStr (''Unable to parse: not json}'' @ NL
                             @ ''Error: Expecting value: line 1 column 1 (char 0)'' @ NL
                             @ ''Traceback (most recent call last): (frames)'')\<rparr>,
          result_conversation_id = ''01HF3Z7Q2N8K4V6T1X9B5C0DME''\<rparr> \<and>
   \<not> occurs_in ''not json,}''
       (''Unable to parse: not json}'' @ NL
        @ ''Error: Expecting value: line 1 column 1 (char 0)'' @ NL
        @ ''Traceback (most recent call last): (frames)'')\<close>
proof (intro conjI)
  show p: \<open>parse_response ''not json,}'' = (''not json}'', Inl JSONDecodeError)\<close>
    by (simp add: parse_response_def json_defs)
  show \<open>fst (async_process (example_env ''not json,}'') example_entry example_input empty_state) =
     Inr \<lparr>response =
            \<lparr>response_language = ''en'', error_code = None,
             speech = PyStr (''Unable to parse: not json}'' @ NL
                             @ ''Error: Expecting value: line 1 column 1 (char 0)'' @ NL
                             @ ''Traceback (most recent call last): (frames)'')\<rparr>,
          result_conversation_id = ''01HF3Z7Q2N8K4V6T1X9B5C0DME''\<rparr>\<close>
    by (simp add: async_process_def build_messages_def lookup_history_def
        async_generate_prompt_def options_get_def p speech_response_def example_defs)
  show \<open>\<not> occurs_in ''not json,}''
       (''Unable to parse: not json}'' @ NL
        @ ''Error: Expecting value: line 1 column 1 (char 0)'' @ NL
        @ ''Traceback (most recent call last): (frames)'')\<close>
    by (simp add: NL_def)
qed

text \<open>
  Claim C6, amended. When the parse step fails, the turn returns as speech, with no
  error code, the text \<^verbatim>\<open>Unable to parse: \<close> followed by the answer after the
  replacement of \<^verbatim>\<open>,}\<close> by \<^verbatim>\<open>}\<close>, the text of the exception and the traceback; no
  service is called. The answer after the replacement is the raw answer whenever
  \<^verbatim>\<open>,}\<close> does not occur in the raw answer.
\<close>

theorem parse_failure_reports_repaired_text:
  assumes "build_messages env entry s user_input = Go (cid, msgs)"
    and "acreate env (request entry cid msgs) = Inr raw"
    and "parse_response raw = (response', Inl err)"
  shows "fst (async_process env entry user_input s) =
           Inr \<lparr>response =
                  \<lparr>response_language = language user_input, error_code = None,
                   speech = PyStr (''Unable to parse: '' @ str_replace '',}'' ''}'' raw @ NL
                                   @ ''Error: '' @ str_exc env err @ NL @ format_exc env err)\<rparr>,
                result_conversation_id = cid\<rparr> \<and>
         called (snd (async_process env entry user_input s)) = called s \<and>
         (occurs_in '',}'' raw \<or> str_replace '',}'' ''}'' raw = raw)"
proof -
  from assms(3) have "response' = str_replace '',}'' ''}'' raw"
    by (simp add: parse_response_def Let_def)
  with async_process_completed [OF assms(1,2)] assms(3)
  have "fst (async_process env entry user_input s) =
           Inr \<lparr>response =
                  \<lparr>response_language = language user_input, error_code = None,
                   speech = PyStr (''Unable to parse: '' @ str_replace '',}'' ''}'' raw @ NL
                                   @ ''Error: '' @ str_exc env err @ NL @ format_exc env err)\<rparr>,
                result_conversation_id = cid\<rparr>"
    and "called (snd (async_process env entry user_input s)) = called s"
    by (simp_all add: speech_response_def)
  moreover have "occurs_in '',}'' raw \<or> str_replace '',}'' ''}'' raw = raw"
    using str_replace_absent [of "'',}''" raw "''}''"] by auto
  ultimately show ?thesis by simp
qed

text \<open>The answer \<^verbatim>\<open>not json\<close>.\<close>

theorem parse_failure_reports_repaired_text_witness:
  \<open>parse_response ''not json'' = (''not json'', Inl JSONDecodeError) \<and>
   fst (async_process (example_env ''not json'') example_entry example_input empty_state) =
     Inr \<lparr>response =
            \<lparr>response_language = ''en'', error_code = None,
             speech = PyStr (''Unable to parse: not json'' @ NL
                             @ ''Error: Expecting value: line 1 column 1 (char 0)'' @ NL
                             @ ''Traceback (most recent call last): (frames)'')\<rparr>,
          result_conversation_id = ''01HF3Z7Q2N8K4V6T1X9B5C0DME''\<rparr> \<and>
   called (snd (async_process (example_env ''not json'') example_entry example_input empty_state)) = []\<close>
proof -
  let ?raw = "''not json''"
  let ?msgs = \<open>[\<lparr>role = ''user'', content = ''You are the voice assistant of a smart home.''\<rparr>,
      \<lparr>role = ''assistant'', content = ''{"comment":"Got it!"}''\<rparr>, new_message example_input]\<close>
  have b: "build_messages (example_env ?raw) example_entry empty_state example_input
     = Go (''01HF3Z7Q2N8K4V6T1X9B5C0DME'', ?msgs)"
    by (simp add: build_messages_def lookup_history_def async_generate_prompt_def options_get_def
        example_defs)
  have a: "acreate (example_env ?raw) (request example_entry ''01HF3Z7Q2N8K4V6T1X9B5C0DME'' ?msgs)
     = Inr ?raw"
    by (simp add: example_env_def)
  have p: "parse_response ?raw = (?raw, Inl JSONDecodeError)"
    by (simp add: parse_response_def json_defs)
  have r: "str_replace '',}'' ''}'' ?raw = ?raw"
    by simp
  from parse_failure_reports_repaired_text [OF b a p] p show ?thesis
    by (simp add: r example_defs)
qed


subsection \<open>The messages sent to the model\<close>

text \<open>
  Claim C7. In a turn whose conversation id is not stored (or absent), the one
  message list sent to the model is: a user message with the rendered prompt, the
  assistant message \<^verbatim>\<open>{"comment":"Got it!"}\<close>, and a user message with the
  utterance followed by the fixed instruction. When the prompt cannot be rendered,
  nothing is sent.
\<close>

theorem new_session_sends_seed_messages:
  assumes "lookup_history s (conversation_id user_input) = None"
  shows \<open>case async_generate_prompt env (options_get (option_prompt entry) (DEFAULT_PROMPT entry)) of
           Inr prompt \<Rightarrow>
             map messages (sent (snd (async_process env entry user_input s))) =
               map messages (sent s) @
               [[\<lparr>role = ''user'', content = prompt\<rparr>,
                 \<lparr>role = ''assistant'', content = ''{"comment":"Got it!"}''\<rparr>,
                 \<lparr>role = ''user'',
                  content = input_text user_input
                            @ '' Answer in syntactially perfect json and only json,''\<rparr>]]
         | Inl err \<Rightarrow> sent (snd (async_process env entry user_input s)) = sent s\<close>
proof (cases "async_generate_prompt env (options_get (option_prompt entry) (DEFAULT_PROMPT entry))")
  case (Inl err)
  with assms show ?thesis
    by (simp add: async_process_def build_messages_def split: py_exception.splits)
next
  case (Inr prompt)
  with assms
  have \<open>build_messages env entry s user_input =
          Go (ulid env,
              [\<lparr>role = ''user'', content = prompt\<rparr>,
               \<lparr>role = ''assistant'', content = ''{"comment":"Got it!"}''\<rparr>,
               new_message user_input])\<close>
    by (simp add: build_messages_def)
  from sent_async_process_Go [OF this] Inr show ?thesis
    by (simp add: request_def new_message_def)
qed

theorem new_session_sends_seed_messages_witness:
  \<open>lookup_history empty_state (conversation_id example_input) = None \<and>
   map messages (sent (snd (async_process (example_env ''{"comment":"hi"}'')
                               example_entry example_input empty_state))) =
     [[\<lparr>role = ''user'', content = ''You are the voice assistant of a smart home.''\<rparr>,
       \<lparr>role = ''assistant'', content = ''{"comment":"Got it!"}''\<rparr>,
       \<lparr>role = ''user'',
        content = ''turn on the light Answer in syntactially perfect json and only json,''\<rparr>]]\<close>
proof -
  have l: "lookup_history empty_state (conversation_id example_input) = None"
    by (simp add: lookup_history_def example_defs)
  have r: \<open>async_generate_prompt (example_env ''{"comment":"hi"}'')
             (options_get (option_prompt example_entry) (DEFAULT_PROMPT example_entry))
           = Inr ''You are the voice assistant of a smart home.''\<close>
    by (simp add: async_generate_prompt_def options_get_def example_defs)
  have t: "input_text example_input = ''turn on the light''" and e: "sent empty_state = []"
    by (simp_all add: example_defs)
  from new_session_sends_seed_messages
    [OF l, of \<open>example_env ''{"comment":"hi"}''\<close> example_entry]
  show ?thesis by (simp add: l r t e)
qed

text \<open>
  Claim C8. In a turn whose conversation id is stored, the one message list sent to
  the model is the stored history, unchanged, followed by one user message with the
  utterance and the fixed instruction.
\<close>

theorem known_session_extends_history:
  assumes "conversation_id user_input = Some c" and "history s c = Some h"
  shows "map messages (sent (snd (async_process env entry user_input s))) =
           map messages (sent s) @
           [h @ [\<lparr>role = ''user'',
                  content = input_text user_input
                            @ '' Answer in syntactially perfect json and only json,''\<rparr>]]"
proof -
  from assms have "lookup_history s (conversation_id user_input) = Some (c, h)"
    by (simp add: lookup_history_def)
  from sent_async_process_Go [OF build_messages_known [OF this]] show ?thesis
    by (simp add: request_def new_message_def)
qed

theorem known_session_extends_history_witness:
  \<open>conversation_id known_input = Some ''01HF3Z0000AAAAAAAAAAAAAAAA'' \<and>
   history known_state ''01HF3Z0000AAAAAAAAAAAAAAAA'' = Some known_history \<and>
   map messages (sent (snd (async_process (example_env ''{"comment":"hi"}'')
                               example_entry known_input known_state))) =
     [known_history @
      [\<lparr>role = ''user'',
        content = ''turn on the light Answer in syntactially perfect json and only json,''\<rparr>]]\<close>
proof -
  have c: "conversation_id known_input = Some ''01HF3Z0000AAAAAAAAAAAAAAAA''"
    by (simp add: example_defs)
  have h: "history known_state ''01HF3Z0000AAAAAAAAAAAAAAAA'' = Some known_history"
    by (simp add: example_defs)
  have t: "input_text known_input = ''turn on the light''" and e: "sent known_state = []"
    by (simp_all add: example_defs)
  from known_session_extends_history
    [OF c h, of \<open>example_env ''{"comment":"hi"}''\<close> example_entry]
  show ?thesis by (simp add: c h t e)
qed

text \<open>
  Claim C9. When the conversation id is not stored and the template engine raises a
  \<^verbatim>\<open>TemplateError\<close>, the state is left as it was (no conversation created, no
  message stored, nothing sent, nothing called) and the turn returns the spoken error
  \<^verbatim>\<open>Sorry, I had a problem with my template: ...\<close> with the identifier that
  \<^verbatim>\<open>ulid.ulid()\<close> made for this turn.
\<close>

theorem render_failure_creates_no_session:
  assumes "lookup_history s (conversation_id user_input) = None"
    and "async_generate_prompt env (options_get (option_prompt entry) (DEFAULT_PROMPT entry))
           = Inl (TemplateError m)"
  shows "async_process env entry user_input s =
           (Inr \<lparr>response =
                   \<lparr>response_language = language user_input, error_code = Some UNKNOWN,
                    speech = PyStr (''Sorry, I had a problem with my template: ''
                                    @ str_exc env (TemplateError m))\<rparr>,
                 result_conversation_id = ulid env\<rparr>,
            s)"
  using assms by (simp add: async_process_def build_messages_def error_response_def)

text \<open>A stale conversation id: the id returned is the new one.\<close>

theorem render_failure_creates_no_session_witness:
  "lookup_history known_state (Some ''01HE000000STALE00000000000'') = None \<and>
   async_process
     ((example_env '''')\<lparr>async_render :=
         \<lambda>template variables. Inl (TemplateError ''UndefinedError: ha_nam is undefined'')\<rparr>)
     example_entry
     (example_input\<lparr>conversation_id := Some ''01HE000000STALE00000000000''\<rparr>)
     known_state =
     (Inr \<lparr>response =
             \<lparr>response_language = ''en'', error_code = Some UNKNOWN,
              speech = PyStr ''Sorry, I had a problem with my template: UndefinedError: ha_nam is undefined''\<rparr>,
           result_conversation_id = ''01HF3Z7Q2N8K4V6T1X9B5C0DME''\<rparr>,
      known_state)"
proof -
  let ?env = "(example_env '''')\<lparr>async_render :=
         \<lambda>template variables. Inl (TemplateError ''UndefinedError: ha_nam is undefined'')\<rparr>"
  let ?input = "example_input\<lparr>conversation_id := Some ''01HE000000STALE00000000000''\<rparr>"
  have l: "lookup_history known_state (conversation_id ?input) = None"
    by (simp add: lookup_history_def example_defs)
  have r: "async_generate_prompt ?env
             (options_get (option_prompt example_entry) (DEFAULT_PROMPT example_entry))
           = Inl (TemplateError ''UndefinedError: ha_nam is undefined'')"
    by (simp add: async_generate_prompt_def)
  have f: "language ?input = ''en''" "str_exc ?env = example_str"
    "ulid ?env = ''01HF3Z7Q2N8K4V6T1X9B5C0DME''"
    by (simp_all add: example_defs)
  from render_failure_creates_no_session [OF l r] l show ?thesis
    by (simp add: f)
qed

end
